theory Spec2Isabelle
  imports Main "HOL-Library.Sublist"
begin

section \<open>Data model\<close>

text \<open>
  Python strings are modelled by \<^typ>\<open>string\<close>, holding the UTF-8 bytes of the text:
  concatenation, joining, emptiness and equality, the only string operations of the
  middleware, agree on both views.
\<close>

text \<open>A proposed tool call is a dictionary; \<open>tc_name\<close> is what \<open>tc.get("name")\<close> returns.\<close>

record tool_call =
  tc_name :: "string option"
  tc_args :: string

text \<open>
  A message of a model response. \<open>tool_calls = None\<close> stands for an object that has no
  \<open>tool_calls\<close> attribute; reading it raises, assigning it creates the attribute.
\<close>

record message =
  content :: string
  tool_calls :: "tool_call list option"

record ModelResponse =
  result :: "message list"
  structured_response :: "string option"

datatype error = IndexError | AttributeError

text \<open>
  Modelled from the spec: the type \<open>SkillMetadata\<close> is declared in \<open>skills/load.py\<close>,
  which is not among the sources. The spec gives it as
  \<open>{name: string, description: string, path: string, source: enum{user, project}}\<close>;
  the middleware compares \<open>source\<close> with \<open>"user"\<close> and \<open>"project"\<close>.
\<close>

datatype skill_source = User | Project

record SkillMetadata =
  name :: string
  description :: string
  path :: string
  source :: skill_source

text \<open>
  The session state is a dictionary; \<open>skills_metadata = None\<close> stands for a state without
  the key \<open>"skills_metadata"\<close>.
\<close>

record SkillsState =
  messages :: "message list"
  skills_metadata :: "SkillMetadata list option"

text \<open>\<open>system_prompt\<close> is \<open>str | None\<close> in the host runtime.\<close>

record ModelRequest =
  system_prompt :: "string option"
  request_messages :: "message list"
  state :: SkillsState

text \<open>The handler of a turn whose model call answers \<open>response\<close>.\<close>

definition returning :: "ModelResponse \<Rightarrow> ModelRequest \<Rightarrow> ModelResponse" where
  "returning response request = response"

section \<open>The tool-gating middleware\<close>

text \<open>The instrumentation fields that both middleware classes set in \<open>__init__\<close>.\<close>

record Instrumented =
  agent_name :: string
  call_count :: nat

record NoSkillsMiddleware = Instrumented +
  DONE_WRITE_FILE :: bool

definition NoSkillsMiddleware_init :: "string \<Rightarrow> NoSkillsMiddleware" where
  "NoSkillsMiddleware_init nm =
     \<lparr>agent_name = nm, call_count = 0, DONE_WRITE_FILE = False\<rparr>"

text \<open>
  The first statement after the handler returns:
  \<^verbatim>\<open>if self.DONE_WRITE_FILE == True: response.result[0].tool_calls = []\<close>.
  Indexing an empty \<open>result\<close> raises \<open>IndexError\<close>.
\<close>

definition suppress_when_done :: "NoSkillsMiddleware \<Rightarrow> ModelResponse \<Rightarrow> error + ModelResponse" where
  "suppress_when_done self response =
     (if DONE_WRITE_FILE self = True then
        (case result response of
           [] \<Rightarrow> Inl IndexError
         | m # ms \<Rightarrow> Inr (response\<lparr>result := m\<lparr>tool_calls := Some []\<rparr> # ms\<rparr>))
      else Inr response)"

text \<open>
  The second statement:
  \<^verbatim>\<open>if response.result[0].tool_calls:
      if response.result[0].tool_calls[0].get("name") == "write_file":
          self.DONE_WRITE_FILE = True\<close>
\<close>

definition observe_write_file :: "NoSkillsMiddleware \<Rightarrow> ModelResponse \<Rightarrow> error + NoSkillsMiddleware" where
  "observe_write_file self response =
     (case result response of
        [] \<Rightarrow> Inl IndexError
      | m # ms \<Rightarrow>
          (case tool_calls m of
             None \<Rightarrow> Inl AttributeError
           | Some [] \<Rightarrow> Inr self
           | Some (tc # tcs) \<Rightarrow>
               if tc_name tc = Some ''write_file''
               then Inr (self\<lparr>DONE_WRITE_FILE := True\<rparr>)
               else Inr self))"

text \<open>
  \<open>NoSkillsMiddleware.wrap_model_call\<close>. The request goes to the handler unchanged. The
  call counter is incremented before the handler runs, so it is kept when a later
  statement raises; the raised exception is the \<open>Inl\<close> outcome.
\<close>

definition gate_wrap_model_call ::
  "NoSkillsMiddleware \<Rightarrow> ModelRequest \<Rightarrow> (ModelRequest \<Rightarrow> ModelResponse) \<Rightarrow>
     NoSkillsMiddleware \<times> (error + ModelResponse)" where
  "gate_wrap_model_call self request handler =
     (let self1 = self\<lparr>call_count := call_count self + 1\<rparr>;
          response = handler request
      in case suppress_when_done self1 response of
           Inl e \<Rightarrow> (self1, Inl e)
         | Inr response1 \<Rightarrow>
             (case observe_write_file self1 response1 of
                Inl e \<Rightarrow> (self1, Inl e)
              | Inr self2 \<Rightarrow> (self2, Inr response1)))"

text \<open>
  One middleware instance serving a sequence of turns; turn \<open>i\<close> is the call whose handler
  returns the \<open>i\<close>-th response. The outcome of each turn is paired with the instance as
  it is after the turn.
\<close>

fun serve ::
  "NoSkillsMiddleware \<Rightarrow> ModelRequest \<Rightarrow> ModelResponse list \<Rightarrow>
     (NoSkillsMiddleware \<times> (error + ModelResponse)) list" where
  "serve self request [] = []"
| "serve self request (r # rs) =
     (let out = gate_wrap_model_call self request (returning r)
      in out # serve (fst out) request rs)"

text \<open>
  Vocabulary of the statements about the gate: a response of the expected shape, a response
  whose first proposed tool call is the terminal one, and a response with the tool-call list
  of its first message emptied.
\<close>

definition well_shaped :: "ModelResponse \<Rightarrow> bool" where
  "well_shaped response =
     (case result response of [] \<Rightarrow> False | m # ms \<Rightarrow> tool_calls m \<noteq> None)"

definition proposes_write_file :: "ModelResponse \<Rightarrow> bool" where
  "proposes_write_file response =
     (case result response of
        [] \<Rightarrow> False
      | m # ms \<Rightarrow>
          (case tool_calls m of
             Some (tc # tcs) \<Rightarrow> tc_name tc = Some ''write_file''
           | _ \<Rightarrow> False))"

definition clear_first :: "ModelResponse \<Rightarrow> ModelResponse" where
  "clear_first response =
     response\<lparr>result := (hd (result response))\<lparr>tool_calls := Some []\<rparr> # tl (result response)\<rparr>"

section \<open>The skills injection middleware\<close>

subsection \<open>The prompt template\<close>

text \<open>The character U+2192 of the template and of the skill lines, as UTF-8.\<close>

definition rightwards_arrow :: string where
  "rightwards_arrow = [CHR 0xE2, CHR 0x86, CHR 0x92]"

text \<open>
  \<open>SKILLS_SYSTEM_PROMPT\<close> is a format string with the two replacement fields
  \<open>{skills_locations}\<close> and \<open>{skills_list}\<close> and no other brace. It is kept as the
  sequence of its literal texts and fields, which is what \<open>str.format\<close> parses it into.
\<close>

datatype template_part = Text string | Field_skills_locations | Field_skills_list

definition template_head :: string where
  \<open>template_head =
       ''\<newline>''
     @ ''\<newline>''
     @ ''## Skills System\<newline>''
     @ ''\<newline>''
     @ ''You have access to a skills library that provides specialized capabilities and domain knowledge.\<newline>''
     @ ''\<newline>''\<close>

definition template_middle :: string where
  \<open>template_middle =
       ''\<newline>''
     @ ''\<newline>''
     @ ''**Available Skills:**\<newline>''
     @ ''\<newline>''\<close>

definition template_tail :: string where
  \<open>template_tail =
       ''\<newline>''
     @ ''\<newline>''
     @ ''**How to Use Skills (Progressive Disclosure):**\<newline>''
     @ ''\<newline>''
     @ ''Skills follow a **progressive disclosure** pattern - you know they exist (name + description above), but you only read the full instructions when needed:\<newline>''
     @ ''\<newline>''
     @ ''1. **Recognize when a skill applies**: Check if the user's task matches any skill's description\<newline>''
     @ ''2. **Read the skill's full instructions**: The skill list above shows the exact path to use with read_file\<newline>''
     @ ''3. **Follow the skill's instructions**: SKILL.md contains step-by-step workflows, best practices, and examples\<newline>''
     @ ''4. **Access supporting files**: Skills may include Python scripts, configs, or reference docs - use absolute paths\<newline>''
     @ ''\<newline>''
     @ ''**When to Use Skills:**\<newline>''
     @ ''- When the user's request matches a skill's domain (e.g., "research X" ''
     @ rightwards_arrow
     @ '' web-research skill)\<newline>''
     @ ''- When you need specialized knowledge or structured workflows\<newline>''
     @ ''- When a skill provides proven patterns for complex tasks\<newline>''
     @ ''\<newline>''
     @ ''**Skills are Self-Documenting:**\<newline>''
     @ ''- Each SKILL.md tells you exactly what the skill does and how to use it\<newline>''
     @ ''- The skill list above shows the full path for each skill's SKILL.md file\<newline>''
     @ ''\<newline>''
     @ ''**Executing Skill Scripts:**\<newline>''
     @ ''Skills may contain Python scripts or other executable files. Always use absolute paths from the skill list.\<newline>''
     @ ''\<newline>''
     @ ''**Example Workflow:**\<newline>''
     @ ''\<newline>''
     @ ''User: "Can you research the latest developments in quantum computing?"\<newline>''
     @ ''\<newline>''
     @ ''1. Check available skills above ''
     @ rightwards_arrow
     @ '' See "web-research" skill with its full path\<newline>''
     @ ''2. Read the skill using the path shown in the list\<newline>''
     @ ''3. Follow the skill's research workflow (search ''
     @ rightwards_arrow
     @ '' organize ''
     @ rightwards_arrow
     @ '' synthesize)\<newline>''
     @ ''4. Use any helper scripts with absolute paths\<newline>''
     @ ''\<newline>''
     @ ''Remember: Skills are tools to make you more capable and consistent. When in doubt, check if a skill exists for the task!\<newline>''\<close>

definition SKILLS_SYSTEM_PROMPT :: "template_part list" where
  "SKILLS_SYSTEM_PROMPT =
     [Text template_head, Field_skills_locations, Text template_middle,
      Field_skills_list, Text template_tail]"

text \<open>
  \<open>template.format(skills_locations=..., skills_list=...)\<close>: every field is replaced by
  its argument, which is not scanned for braces again.
\<close>

fun format_template :: "template_part list \<Rightarrow> string \<Rightarrow> string \<Rightarrow> string" where
  "format_template [] skills_locations skills_list = []"
| "format_template (Text t # ps) skills_locations skills_list =
     t @ format_template ps skills_locations skills_list"
| "format_template (Field_skills_locations # ps) skills_locations skills_list =
     skills_locations @ format_template ps skills_locations skills_list"
| "format_template (Field_skills_list # ps) skills_locations skills_list =
     skills_list @ format_template ps skills_locations skills_list"

text \<open>\<open>sep.join(xs)\<close>.\<close>

fun str_join :: "string \<Rightarrow> string list \<Rightarrow> string" where
  "str_join sep [] = []"
| "str_join sep [x] = x"
| "str_join sep (x # y # ys) = x @ sep @ str_join sep (y # ys)"

subsection \<open>The middleware instance\<close>

text \<open>
  The paths \<open>skills_dir\<close> and \<open>project_skills_dir\<close> are held as the text \<open>str(path)\<close>,
  which is what the f-strings print.
\<close>

record SkillsMiddleware = Instrumented +
  skills_dir :: string
  assistant_id :: string
  project_skills_dir :: "string option"
  user_skills_display :: string
  system_prompt_template :: "template_part list"

text \<open>
  \<open>SkillsMiddleware.__init__\<close>. The parameter \<open>expanduser\<close> stands for
  \<open>str(Path(p).expanduser())\<close> of the standard library. An empty \<open>project_skills_dir\<close>
  is falsy and gives \<open>None\<close>, as an absent one does.
\<close>

definition SkillsMiddleware_init ::
  "(string \<Rightarrow> string) \<Rightarrow> string \<Rightarrow> string \<Rightarrow> string option \<Rightarrow> string \<Rightarrow> SkillsMiddleware" where
  "SkillsMiddleware_init expanduser sdir aid pdir nm =
     \<lparr>agent_name = nm,
      call_count = 0,
      skills_dir = expanduser sdir,
      assistant_id = aid,
      project_skills_dir =
        (case pdir of
           None \<Rightarrow> None
         | Some p \<Rightarrow> if p \<noteq> [] then Some (expanduser p) else None),
      user_skills_display = ''~/.deepagents/'' @ aid @ ''/skills'',
      system_prompt_template = SKILLS_SYSTEM_PROMPT\<rparr>"

subsection \<open>Rendering\<close>

definition format_skills_locations :: "SkillsMiddleware \<Rightarrow> string" where
  "format_skills_locations self =
     (let locations = [''**User Skills**: `'' @ user_skills_display self @ ''`''];
          locations =
            (case project_skills_dir self of
               Some p \<Rightarrow>
                 locations @ [''**Project Skills**: `'' @ p @ ''` (overrides user skills)'']
             | None \<Rightarrow> locations)
      in str_join ''\<newline>'' locations)"

text \<open>The two lines that each loop of \<open>_format_skills_list\<close> appends for one skill.\<close>

definition name_line :: "SkillMetadata \<Rightarrow> string" where
  "name_line skill = ''- **'' @ name skill @ ''**: '' @ description skill"

definition path_line :: "SkillMetadata \<Rightarrow> string" where
  "path_line skill =
     ''  '' @ rightwards_arrow @ '' Read `'' @ path skill @ ''` for full instructions''"

fun append_skill_lines :: "string list \<Rightarrow> SkillMetadata list \<Rightarrow> string list" where
  "append_skill_lines lines [] = lines"
| "append_skill_lines lines (skill # skills) =
     append_skill_lines ((lines @ [name_line skill]) @ [path_line skill]) skills"

definition format_skills_list :: "SkillsMiddleware \<Rightarrow> SkillMetadata list \<Rightarrow> string" where
  "format_skills_list self skills =
     (if skills = [] then
        (let locations = [user_skills_display self @ ''/''];
             locations =
               (case project_skills_dir self of
                  Some p \<Rightarrow> locations @ [p @ ''/'']
                | None \<Rightarrow> locations)
         in ''(No skills available yet. You can create skills in ''
              @ str_join '' or '' locations @ '')'')
      else
        (let user_skills = filter (\<lambda>s. source s = User) skills;
             project_skills = filter (\<lambda>s. source s = Project) skills;
             lines = [];
             lines =
               (if user_skills \<noteq> []
                then append_skill_lines (lines @ [''**User Skills:**'']) user_skills @ [[]]
                else lines);
             lines =
               (if project_skills \<noteq> []
                then append_skill_lines (lines @ [''**Project Skills:**'']) project_skills
                else lines)
         in str_join ''\<newline>'' lines))"

subsection \<open>The per-model-call hook\<close>

text \<open>
  \<open>SkillsMiddleware.wrap_model_call\<close>, in three parts: the rendered section, the system
  prompt of the outgoing request, and the call itself, which counts the call and hands
  \<open>request.override(system_prompt=system_prompt)\<close> to the handler.
\<close>

definition skills_section :: "SkillsMiddleware \<Rightarrow> ModelRequest \<Rightarrow> string" where
  "skills_section self request =
     (let metadata =
            (case skills_metadata (state request) of None \<Rightarrow> [] | Some skills \<Rightarrow> skills);
          skills_locations = format_skills_locations self;
          skills_list = format_skills_list self metadata
      in format_template (system_prompt_template self) skills_locations skills_list)"

definition outgoing_system_prompt :: "SkillsMiddleware \<Rightarrow> ModelRequest \<Rightarrow> string" where
  "outgoing_system_prompt self request =
     (case system_prompt request of
        None \<Rightarrow> skills_section self request
      | Some p \<Rightarrow>
          if p \<noteq> [] then p @ ''\<newline>\<newline>'' @ skills_section self request
          else skills_section self request)"

definition wrap_model_call ::
  "SkillsMiddleware \<Rightarrow> ModelRequest \<Rightarrow> (ModelRequest \<Rightarrow> 'r) \<Rightarrow> SkillsMiddleware \<times> 'r" where
  "wrap_model_call self request handler =
     (let new_prompt = outgoing_system_prompt self request;
          self1 = self\<lparr>call_count := call_count self + 1\<rparr>;
          response = handler (request\<lparr>system_prompt := Some new_prompt\<rparr>)
      in (self1, response))"

section \<open>The catalog merge\<close>

text \<open>
  Modelled from the spec: the catalog builder \<open>list_skills\<close> is defined in
  \<open>skills/load.py\<close>, which is not among the sources. The spec gives the catalog as an
  ordered sequence in which ``\<open>name\<close> is unique'', with ``insertion order = user-tier
  entries first (in directory-scan order), then project-tier entries, with duplicates by
  name removed such that the project version wins and appears in the position where the
  override happens''. Its merge rule: ``start from user-tier records; for each project-tier
  record whose \<open>name\<close> matches an existing user-tier record, replace that record in place
  (keep the original position) and mark \<open>source=project\<close>; project-tier records with no
  name collision are appended after all user-tier records.'' It names the structure: ``a
  mapping keyed by name built first from user entries then overwritten by project entries,
  with a secondary ordered list preserving first-seen position'', that is, an
  insertion-order preserving, key-unique map.
\<close>

definition mark_project :: "SkillMetadata \<Rightarrow> SkillMetadata" where
  "mark_project p = p\<lparr>source := Project\<rparr>"

text \<open>
  Storing a record in the ordered map: a record of the same name is overwritten where it
  stands, a record with a new name goes to the end.
\<close>

fun upsert :: "SkillMetadata \<Rightarrow> SkillMetadata list \<Rightarrow> SkillMetadata list" where
  "upsert p [] = [p]"
| "upsert p (u # us) =
     (if name u = name p then p # us else u # upsert p us)"

definition upsert_all :: "SkillMetadata list \<Rightarrow> SkillMetadata list \<Rightarrow> SkillMetadata list" where
  "upsert_all catalog records = foldl (\<lambda>c r. upsert r c) catalog records"

text \<open>The user tier's records as they stand in the map before the project tier is read.\<close>

definition user_catalog :: "SkillMetadata list \<Rightarrow> SkillMetadata list" where
  "user_catalog user_records = upsert_all [] user_records"

definition merge_catalog :: "SkillMetadata list \<Rightarrow> SkillMetadata list \<Rightarrow> SkillMetadata list" where
  "merge_catalog user_records project_records =
     upsert_all (user_catalog user_records) (map mark_project project_records)"

section \<open>Example inputs\<close>

definition tool_named :: "string \<Rightarrow> tool_call" where
  "tool_named n = \<lparr>tc_name = Some n, tc_args = []\<rparr>"

definition ai_message :: "string \<Rightarrow> tool_call list \<Rightarrow> message" where
  "ai_message txt tcs = \<lparr>content = txt, tool_calls = Some tcs\<rparr>"

text \<open>A message object without a \<open>tool_calls\<close> attribute.\<close>

definition plain_message :: "string \<Rightarrow> message" where
  "plain_message txt = \<lparr>content = txt, tool_calls = None\<rparr>"

definition respond :: "message list \<Rightarrow> ModelResponse" where
  "respond ms = \<lparr>result = ms, structured_response = None\<rparr>"

definition request_with :: "string option \<Rightarrow> SkillMetadata list option \<Rightarrow> ModelRequest" where
  "request_with prompt catalog =
     \<lparr>system_prompt = prompt, request_messages = [],
      state = \<lparr>messages = [], skills_metadata = catalog\<rparr>\<rparr>"

text \<open>
  The spec's scenario for the gate: the tool-call names of four successive responses are
  \<open>[]\<close>, \<open>[read_file]\<close>, \<open>[write_file]\<close>, \<open>[write_file]\<close>.
\<close>

definition gate_scenario :: "ModelResponse list" where
  "gate_scenario =
     [respond [ai_message ''thinking'' []],
      respond [ai_message ''reading'' [tool_named ''read_file'']],
      respond [ai_message ''writing'' [tool_named ''write_file'']],
      respond [ai_message ''again'' [tool_named ''write_file'']]]"

text \<open>
  The spec's scenario for the merge: the user tier holds skill \<open>A\<close>, the project tier
  holds \<open>A\<close> and \<open>B\<close>.
\<close>

definition skill :: "string \<Rightarrow> string \<Rightarrow> string \<Rightarrow> skill_source \<Rightarrow> SkillMetadata" where
  "skill n d p s = \<lparr>name = n, description = d, path = p, source = s\<rparr>"

definition user_tier :: "SkillMetadata list" where
  "user_tier = [skill ''A'' ''desc A'' ''/u/A/SKILL.md'' User]"

definition project_tier :: "SkillMetadata list" where
  "project_tier =
     [skill ''A'' ''desc A2'' ''/p/A/SKILL.md'' Project,
      skill ''B'' ''desc B'' ''/p/B/SKILL.md'' Project]"

text \<open>
  A middleware configured as the repository's bootstrap script does: a user skills
  directory of its own choosing, the assistant id \<open>agent\<close>, no project directory.
\<close>

definition bootstrap_middleware :: SkillsMiddleware where
  "bootstrap_middleware =
     SkillsMiddleware_init id ''/home/jo/extractor/agent/skills'' ''agent'' None
       ''architecture-extractor''"

text \<open>A middleware with a project directory.\<close>

definition project_middleware :: SkillsMiddleware where
  "project_middleware =
     SkillsMiddleware_init id ''/home/jo/.deepagents/agent/skills'' ''agent''
       (Some ''/work/.deepagents/skills'') ''agent''"

section \<open>Properties of the gate\<close>

lemma well_shaped_nonempty: "well_shaped r \<Longrightarrow> result r \<noteq> []"
  by (auto simp: well_shaped_def split: list.splits)

lemma gate_open_pass:
  assumes "\<not> DONE_WRITE_FILE self" and "well_shaped r"
  shows "gate_wrap_model_call self request (returning r) =
           (self\<lparr>call_count := call_count self + 1,
                 DONE_WRITE_FILE := proposes_write_file r\<rparr>, Inr r)"
  using assms
  by (auto simp: gate_wrap_model_call_def suppress_when_done_def observe_write_file_def
      well_shaped_def proposes_write_file_def returning_def Let_def
      split: list.splits option.splits)

lemma gate_closed_clear:
  assumes "DONE_WRITE_FILE self" and "result r \<noteq> []"
  shows "gate_wrap_model_call self request (returning r) =
           (self\<lparr>call_count := call_count self + 1\<rparr>, Inr (clear_first r))"
  using assms
  by (auto simp: gate_wrap_model_call_def suppress_when_done_def observe_write_file_def
      clear_first_def returning_def Let_def split: list.splits option.splits)

lemma gate_flag_monotone:
  "DONE_WRITE_FILE self \<Longrightarrow> DONE_WRITE_FILE (fst (gate_wrap_model_call self request handler))"
  by (auto simp: gate_wrap_model_call_def suppress_when_done_def observe_write_file_def
      Let_def split: list.splits option.splits sum.splits)

lemma serve_closed:
  assumes "DONE_WRITE_FILE self" and "\<forall>r \<in> set rs. result r \<noteq> []" and "i < length rs"
  shows "serve self request rs ! i =
           (self\<lparr>call_count := call_count self + i + 1\<rparr>, Inr (clear_first (rs ! i)))"
  using assms
proof (induction rs arbitrary: self i)
  case Nil
  then show ?case by simp
next
  case (Cons r rs)
  have step: "gate_wrap_model_call self request (returning r) =
      (self\<lparr>call_count := call_count self + 1\<rparr>, Inr (clear_first r))"
    using Cons.prems by (simp add: gate_closed_clear)
  show ?case
  proof (cases i)
    case 0
    then show ?thesis using step by (simp add: Let_def)
  next
    case (Suc j)
    have "serve (self\<lparr>call_count := call_count self + 1\<rparr>) request rs ! j =
        (self\<lparr>call_count := call_count self + 1\<rparr>
           \<lparr>call_count := call_count (self\<lparr>call_count := call_count self + 1\<rparr>) + j + 1\<rparr>,
         Inr (clear_first (rs ! j)))"
      using Cons.prems Suc by (intro Cons.IH) auto
    then show ?thesis using step Suc by (simp add: Let_def)
  qed
qed

lemma serve_open:
  assumes "\<not> DONE_WRITE_FILE self" and "\<forall>r \<in> set rs. well_shaped r"
    and "k < length rs" and "proposes_write_file (rs ! k)"
    and "\<forall>j<k. \<not> proposes_write_file (rs ! j)" and "i < length rs"
  shows "snd (serve self request rs ! i) = Inr (if i \<le> k then rs ! i else clear_first (rs ! i))
       \<and> DONE_WRITE_FILE (fst (serve self request rs ! i)) = (k \<le> i)"
  using assms
proof (induction rs arbitrary: self k i)
  case Nil
  then show ?case by simp
next
  case (Cons r rs)
  let ?self' = "self\<lparr>call_count := call_count self + 1, DONE_WRITE_FILE := proposes_write_file r\<rparr>"
  have step: "gate_wrap_model_call self request (returning r) = (?self', Inr r)"
    using Cons.prems by (simp add: gate_open_pass)
  show ?case
  proof (cases i)
    case 0
    then show ?thesis using step Cons.prems by (cases k) (auto simp: Let_def)
  next
    case i: (Suc i')
    show ?thesis
    proof (cases k)
      case 0
      then have closed: "DONE_WRITE_FILE ?self'" using Cons.prems by simp
      have "\<forall>r \<in> set rs. result r \<noteq> []"
        using Cons.prems by (auto dest: well_shaped_nonempty)
      then have "serve ?self' request rs ! i' =
          (?self'\<lparr>call_count := call_count ?self' + i' + 1\<rparr>, Inr (clear_first (rs ! i')))"
        using closed Cons.prems i by (intro serve_closed) auto
      then show ?thesis using step i 0 closed by (simp add: Let_def)
    next
      case k: (Suc k')
      have "\<not> proposes_write_file r" using Cons.prems k by auto
      then have open': "\<not> DONE_WRITE_FILE ?self'" by simp
      have "snd (serve ?self' request rs ! i') =
            Inr (if i' \<le> k' then rs ! i' else clear_first (rs ! i'))
          \<and> DONE_WRITE_FILE (fst (serve ?self' request rs ! i')) = (k' \<le> i')"
        using open' Cons.prems i k by (intro Cons.IH) auto
      then show ?thesis using step i k by (simp add: Let_def)
    qed
  qed
qed

lemma clear_first_content:
  "result r \<noteq> [] \<Longrightarrow> map content (result (clear_first r)) = map content (result r)"
  by (cases "result r") (simp_all add: clear_first_def)

lemma gate_scenario_shaped: "\<forall>r \<in> set gate_scenario. well_shaped r"
  by (simp add: gate_scenario_def well_shaped_def respond_def ai_message_def)

lemma gate_scenario_nonempty: "\<forall>r \<in> set gate_scenario. result r \<noteq> []"
  by (simp add: gate_scenario_def respond_def)

text \<open>
  Claim C1. One instance of the gate, fresh from \<open>__init__\<close>, serves a sequence of responses
  of the expected shape (a non-empty result whose first message has a tool-call list). If
  response \<open>k\<close> is the first whose first proposed tool call is named \<open>write_file\<close>, then
  every turn up to and including \<open>k\<close> returns its response as the handler gave it, and every
  later turn returns its response with the first message's tool-call list emptied. The flag
  is unset after every turn before \<open>k\<close> and set after turn \<open>k\<close> and every later turn: it
  changes once, and a set flag is never unset by any call.
\<close>

theorem C1_gate_sequence:
  assumes "\<forall>r \<in> set rs. well_shaped r"
    and "k < length rs" and "proposes_write_file (rs ! k)"
    and "\<forall>j<k. \<not> proposes_write_file (rs ! j)"
    and "i < length rs"
  shows "snd (serve (NoSkillsMiddleware_init nm) request rs ! i) =
           Inr (if i \<le> k then rs ! i else clear_first (rs ! i))
       \<and> (k < i \<longrightarrow> tool_calls (hd (result (clear_first (rs ! i)))) = Some [])
       \<and> DONE_WRITE_FILE (fst (serve (NoSkillsMiddleware_init nm) request rs ! i)) = (k \<le> i)
       \<and> (\<forall>self req handler. DONE_WRITE_FILE self \<longrightarrow>
             DONE_WRITE_FILE (fst (gate_wrap_model_call self req handler)))"
proof -
  have "\<not> DONE_WRITE_FILE (NoSkillsMiddleware_init nm)"
    by (simp add: NoSkillsMiddleware_init_def)
  from serve_open [OF this assms]
  show ?thesis by (simp add: gate_flag_monotone clear_first_def)
qed

theorem C1_gate_sequence_witness:
  "well_shaped (gate_scenario ! 0) \<and> well_shaped (gate_scenario ! 1)
   \<and> well_shaped (gate_scenario ! 2) \<and> well_shaped (gate_scenario ! 3)
   \<and> \<not> proposes_write_file (gate_scenario ! 0) \<and> \<not> proposes_write_file (gate_scenario ! 1)
   \<and> proposes_write_file (gate_scenario ! 2)
   \<and> snd (serve (NoSkillsMiddleware_init ''requirement-extractor'')
             (request_with None None) gate_scenario ! 1)
       = Inr (respond [ai_message ''reading'' [tool_named ''read_file'']])
   \<and> snd (serve (NoSkillsMiddleware_init ''requirement-extractor'')
             (request_with None None) gate_scenario ! 2)
       = Inr (respond [ai_message ''writing'' [tool_named ''write_file'']])
   \<and> snd (serve (NoSkillsMiddleware_init ''requirement-extractor'')
             (request_with None None) gate_scenario ! 3)
       = Inr (respond [ai_message ''again'' []])"
proof -
  have k: "(2::nat) < length gate_scenario" by (simp add: gate_scenario_def)
  have hit: "proposes_write_file (gate_scenario ! 2)"
    by (simp add: gate_scenario_def proposes_write_file_def respond_def ai_message_def
        tool_named_def)
  have miss0: "\<not> proposes_write_file (gate_scenario ! 0)"
    by (simp add: gate_scenario_def proposes_write_file_def respond_def ai_message_def)
  have miss1: "\<not> proposes_write_file (gate_scenario ! 1)"
    by (simp add: gate_scenario_def proposes_write_file_def respond_def ai_message_def
        tool_named_def)
  have before: "\<forall>j<2. \<not> proposes_write_file (gate_scenario ! j)"
    using miss0 miss1 by (auto simp: less_Suc_eq numeral_2_eq_2)
  have i1: "(1::nat) < length gate_scenario" and i3: "(3::nat) < length gate_scenario"
    by (simp_all add: gate_scenario_def)
  note t1 = C1_gate_sequence [OF gate_scenario_shaped k hit before i1,
      of "''requirement-extractor''" "request_with None None"]
  note t2 = C1_gate_sequence [OF gate_scenario_shaped k hit before k,
      of "''requirement-extractor''" "request_with None None"]
  note t3 = C1_gate_sequence [OF gate_scenario_shaped k hit before i3,
      of "''requirement-extractor''" "request_with None None"]
  have shaped: "well_shaped (gate_scenario ! 0) \<and> well_shaped (gate_scenario ! 1)
      \<and> well_shaped (gate_scenario ! 2) \<and> well_shaped (gate_scenario ! 3)"
    by (simp add: gate_scenario_def well_shaped_def respond_def ai_message_def)
  have v1: "gate_scenario ! 1 = respond [ai_message ''reading'' [tool_named ''read_file'']]"
    and v2: "gate_scenario ! 2 = respond [ai_message ''writing'' [tool_named ''write_file'']]"
    and v3: "clear_first (gate_scenario ! 3) = respond [ai_message ''again'' []]"
    by (simp_all add: gate_scenario_def clear_first_def respond_def ai_message_def)
  show ?thesis
    using t1 t2 t3 shaped hit miss0 miss1 v1 v2 v3 by simp
qed

text \<open>
  Claim C5, as stated, fails: a response whose result list is empty makes the call raise
  \<open>IndexError\<close> instead of returning the response.
\<close>

theorem C5_empty_result_raises:
  "snd (gate_wrap_model_call (NoSkillsMiddleware_init ''requirement-extractor'')
          (request_with None None) (returning (respond []))) = Inl IndexError"
  by (simp add: gate_wrap_model_call_def suppress_when_done_def observe_write_file_def
      NoSkillsMiddleware_init_def returning_def respond_def Let_def)

text \<open>
  Claim C5, amended. A response with an empty result list makes the call raise
  \<open>IndexError\<close> in either state, and a first result element without a tool-call list
  makes it raise \<open>AttributeError\<close> while the gate is open; in both cases the flag is left
  as it was. A response with a non-empty result list whose first element has a tool-call
  list is returned unmodified, without raising, while the gate is open.
\<close>

theorem C5_gate_shape_outcomes:
  "(result r = [] \<longrightarrow>
      gate_wrap_model_call self request (returning r) =
        (self\<lparr>call_count := call_count self + 1\<rparr>, Inl IndexError))
 \<and> (\<not> DONE_WRITE_FILE self \<and> result r \<noteq> [] \<and> tool_calls (hd (result r)) = None \<longrightarrow>
      gate_wrap_model_call self request (returning r) =
        (self\<lparr>call_count := call_count self + 1\<rparr>, Inl AttributeError))
 \<and> (\<not> DONE_WRITE_FILE self \<and> well_shaped r \<longrightarrow>
      snd (gate_wrap_model_call self request (returning r)) = Inr r)"
  by (auto simp: gate_wrap_model_call_def suppress_when_done_def observe_write_file_def
      well_shaped_def returning_def Let_def split: list.splits option.splits)

theorem C5_gate_shape_outcomes_witness:
  "result (respond []) = []
 \<and> gate_wrap_model_call (NoSkillsMiddleware_init ''requirement-extractor'')
      (request_with None None) (returning (respond [])) =
      (\<lparr>agent_name = ''requirement-extractor'', call_count = 1, DONE_WRITE_FILE = False\<rparr>,
       Inl IndexError)
 \<and> tool_calls (hd (result (respond [plain_message ''hello'']))) = None
 \<and> gate_wrap_model_call (NoSkillsMiddleware_init ''requirement-extractor'')
      (request_with None None) (returning (respond [plain_message ''hello''])) =
      (\<lparr>agent_name = ''requirement-extractor'', call_count = 1, DONE_WRITE_FILE = False\<rparr>,
       Inl AttributeError)
 \<and> well_shaped (respond [ai_message ''reading'' [tool_named ''read_file'']])
 \<and> snd (gate_wrap_model_call (NoSkillsMiddleware_init ''requirement-extractor'')
      (request_with None None)
      (returning (respond [ai_message ''reading'' [tool_named ''read_file'']]))) =
      Inr (respond [ai_message ''reading'' [tool_named ''read_file'']])"
  using C5_gate_shape_outcomes [of "respond []"
      "NoSkillsMiddleware_init ''requirement-extractor''" "request_with None None"]
    C5_gate_shape_outcomes [of "respond [plain_message ''hello'']"
      "NoSkillsMiddleware_init ''requirement-extractor''" "request_with None None"]
    C5_gate_shape_outcomes [of "respond [ai_message ''reading'' [tool_named ''read_file'']]"
      "NoSkillsMiddleware_init ''requirement-extractor''" "request_with None None"]
  by (simp add: respond_def plain_message_def ai_message_def well_shaped_def
      NoSkillsMiddleware_init_def)

text \<open>
  Claim C6. While the gate is closed, every response with a non-empty result list, whatever
  it contains, comes back with exactly one change: the tool-call list of its first message
  is empty. The content of every message, the other messages and the structured response
  are as the handler gave them, and the gate stays closed, for any number of responses.
\<close>

theorem C6_closed_clears_only_tool_calls:
  assumes "DONE_WRITE_FILE self" and "\<forall>r \<in> set rs. result r \<noteq> []" and "i < length rs"
  shows "\<exists>out. snd (serve self request rs ! i) = Inr out
       \<and> out = (rs ! i)\<lparr>result :=
                  (hd (result (rs ! i)))\<lparr>tool_calls := Some []\<rparr> # tl (result (rs ! i))\<rparr>
       \<and> tool_calls (hd (result out)) = Some []
       \<and> map content (result out) = map content (result (rs ! i))
       \<and> tl (result out) = tl (result (rs ! i))
       \<and> structured_response out = structured_response (rs ! i)
       \<and> DONE_WRITE_FILE (fst (serve self request rs ! i))"
proof -
  have ne: "result (rs ! i) \<noteq> []" using assms(2,3) by simp
  have "serve self request rs ! i =
      (self\<lparr>call_count := call_count self + i + 1\<rparr>, Inr (clear_first (rs ! i)))"
    using assms by (rule serve_closed)
  then show ?thesis
    using assms(1) clear_first_content [OF ne] by (simp add: clear_first_def)
qed

theorem C6_closed_clears_only_tool_calls_witness:
  "DONE_WRITE_FILE (\<lparr>agent_name = ''usecase-extractor'', call_count = 3,
                      DONE_WRITE_FILE = True\<rparr>)
 \<and> result (gate_scenario ! 0) \<noteq> [] \<and> result (gate_scenario ! 1) \<noteq> []
 \<and> result (gate_scenario ! 2) \<noteq> [] \<and> result (gate_scenario ! 3) \<noteq> []
 \<and> snd (serve \<lparr>agent_name = ''usecase-extractor'', call_count = 3, DONE_WRITE_FILE = True\<rparr>
           (request_with None None) gate_scenario ! 1)
      = Inr (respond [ai_message ''reading'' []])"
proof -
  have closed: "DONE_WRITE_FILE (\<lparr>agent_name = ''usecase-extractor'', call_count = 3,
      DONE_WRITE_FILE = True\<rparr>)" by simp
  have i1: "(1::nat) < length gate_scenario" by (simp add: gate_scenario_def)
  have ne: "result (gate_scenario ! 0) \<noteq> [] \<and> result (gate_scenario ! 1) \<noteq> []
      \<and> result (gate_scenario ! 2) \<noteq> [] \<and> result (gate_scenario ! 3) \<noteq> []"
    by (simp add: gate_scenario_def respond_def)
  have v: "gate_scenario ! 1 = respond [ai_message ''reading'' [tool_named ''read_file'']]"
    by (simp add: gate_scenario_def)
  from C6_closed_clears_only_tool_calls [OF closed gate_scenario_nonempty i1,
      of "request_with None None"]
  show ?thesis using ne v by (auto simp: respond_def ai_message_def)
qed

text \<open>
  Claim C10. While the gate is closed, a response whose result list is \<open>m # ms\<close> comes back
  as \<open>m\<close> with an empty tool-call list followed by \<open>ms\<close> untouched, so tool calls proposed
  on a later element stay. The instance after the call is the same whatever \<open>ms\<close> is: the
  check for the terminal tool call reads the first element only (in either state).
\<close>

theorem C10_only_first_element:
  assumes "DONE_WRITE_FILE self" and "result r = m # ms" and "ms \<noteq> []"
  shows "gate_wrap_model_call self request (returning r) =
           (self\<lparr>call_count := call_count self + 1\<rparr>,
            Inr (r\<lparr>result := m\<lparr>tool_calls := Some []\<rparr> # ms\<rparr>))
       \<and> (\<forall>self' ms'.
             fst (gate_wrap_model_call self' request (returning (r\<lparr>result := m # ms'\<rparr>))) =
             fst (gate_wrap_model_call self' request (returning r)))"
  using assms
  by (auto simp: gate_wrap_model_call_def suppress_when_done_def observe_write_file_def
      returning_def Let_def split: list.splits option.splits)

theorem C10_only_first_element_witness:
  "DONE_WRITE_FILE (\<lparr>agent_name = ''bdd-extractor'', call_count = 1, DONE_WRITE_FILE = True\<rparr>)
 \<and> gate_wrap_model_call
      \<lparr>agent_name = ''bdd-extractor'', call_count = 1, DONE_WRITE_FILE = True\<rparr>
      (request_with None None)
      (returning (respond [ai_message ''one'' [tool_named ''read_file''],
                           ai_message ''two'' [tool_named ''write_file'']]))
    = (\<lparr>agent_name = ''bdd-extractor'', call_count = 2, DONE_WRITE_FILE = True\<rparr>,
       Inr (respond [ai_message ''one'' [],
                     ai_message ''two'' [tool_named ''write_file'']]))"
proof -
  have closed: "DONE_WRITE_FILE (\<lparr>agent_name = ''bdd-extractor'', call_count = 1,
      DONE_WRITE_FILE = True\<rparr>)" by simp
  have shape: "result (respond [ai_message ''one'' [tool_named ''read_file''],
        ai_message ''two'' [tool_named ''write_file'']])
      = ai_message ''one'' [tool_named ''read_file'']
        # [ai_message ''two'' [tool_named ''write_file'']]"
    by (simp add: respond_def)
  have more: "[ai_message ''two'' [tool_named ''write_file'']] \<noteq> []" by simp
  from C10_only_first_element [OF closed shape more, of "request_with None None"]
  show ?thesis by (simp add: respond_def ai_message_def)
qed

section \<open>Properties of the catalog merge\<close>

lemma name_mark_project: "name (mark_project p) = name p"
  by (simp add: mark_project_def)

lemma upsert_names:
  "map name (upsert p c) =
     (if name p \<in> set (map name c) then map name c else map name c @ [name p])"
  by (induction c) auto

lemma upsert_new: "name p \<notin> set (map name c) \<Longrightarrow> upsert p c = c @ [p]"
  by (induction c) auto

lemma upsert_append_hit:
  "name p \<in> set (map name c) \<Longrightarrow> upsert p (c @ d) = upsert p c @ d"
  by (induction c) auto

lemma upsert_append_miss:
  "name p \<notin> set (map name c) \<Longrightarrow> upsert p (c @ d) = c @ upsert p d"
  by (induction c) auto

lemma upsert_other:
  "i < length c \<Longrightarrow> name (c ! i) \<noteq> name p \<Longrightarrow> upsert p c ! i = c ! i"
proof (induction c arbitrary: i)
  case Nil
  then show ?case by simp
next
  case (Cons u us)
  then show ?case by (cases i) auto
qed

lemma upsert_hit:
  "i < length c \<Longrightarrow> name (c ! i) = name p \<Longrightarrow> distinct (map name c) \<Longrightarrow>
     upsert p c ! i = p"
proof (induction c arbitrary: i)
  case Nil
  then show ?case by simp
next
  case (Cons u us)
  show ?case
  proof (cases i)
    case 0
    then show ?thesis using Cons.prems by simp
  next
    case (Suc j)
    then have j: "j < length us" "name (us ! j) = name p" using Cons.prems by simp_all
    then have "name p \<in> set (map name us)" by (metis length_map nth_map nth_mem)
    then have "name u \<noteq> name p" using Cons.prems(3) by auto
    then show ?thesis using Cons j Suc by simp
  qed
qed

lemma upsert_distinct: "distinct (map name c) \<Longrightarrow> distinct (map name (upsert p c))"
  by (simp add: upsert_names)

lemma upsert_all_snoc: "upsert_all c (xs @ [x]) = upsert x (upsert_all c xs)"
  by (simp add: upsert_all_def)

lemma upsert_all_distinct:
  "distinct (map name c) \<Longrightarrow> distinct (map name (upsert_all c xs))"
  by (induction xs rule: rev_induct) (simp_all add: upsert_all_snoc upsert_distinct upsert_all_def)

lemma upsert_all_name_set:
  "set (map name (upsert_all c xs)) = set (map name c) \<union> name ` set xs"
proof (induction xs rule: rev_induct)
  case Nil
  then show ?case by (simp add: upsert_all_def)
next
  case (snoc x xs)
  then show ?case by (auto simp: upsert_all_snoc upsert_names)
qed

lemma upsert_all_split:
  "\<exists>pre. upsert_all c xs =
       pre @ upsert_all [] (filter (\<lambda>x. name x \<notin> set (map name c)) xs)
     \<and> map name pre = map name c"
proof (induction xs rule: rev_induct)
  case Nil
  then show ?case by (simp add: upsert_all_def)
next
  case (snoc x xs)
  let ?rest = "upsert_all [] (filter (\<lambda>x. name x \<notin> set (map name c)) xs)"
  from snoc obtain pre where pre: "upsert_all c xs = pre @ ?rest" "map name pre = map name c"
    by blast
  show ?case
  proof (cases "name x \<in> set (map name c)")
    case True
    then have "upsert x (pre @ ?rest) = upsert x pre @ ?rest"
      using pre(2) by (intro upsert_append_hit) simp
    moreover have "map name (upsert x pre) = map name c"
      using True pre(2) by (simp add: upsert_names)
    ultimately show ?thesis using True pre(1) by (auto simp: upsert_all_snoc)
  next
    case False
    then have "upsert x (pre @ ?rest) = pre @ upsert x ?rest"
      using pre(2) by (intro upsert_append_miss) simp
    then show ?thesis using False pre by (auto simp: upsert_all_snoc)
  qed
qed

lemma upsert_all_prefix:
  obtains pre where
    "upsert_all c xs = pre @ upsert_all [] (filter (\<lambda>x. name x \<notin> set (map name c)) xs)"
    and "map name pre = map name c" and "length pre = length c"
proof -
  from upsert_all_split [of c xs] obtain pre where pre:
    "upsert_all c xs = pre @ upsert_all [] (filter (\<lambda>x. name x \<notin> set (map name c)) xs)"
    "map name pre = map name c" by blast
  from pre(2) have "length pre = length c" by (metis length_map)
  with pre that show ?thesis by blast
qed

lemma upsert_all_length_ge: "length c \<le> length (upsert_all c xs)"
proof -
  obtain pre where "upsert_all c xs =
      pre @ upsert_all [] (filter (\<lambda>x. name x \<notin> set (map name c)) xs)"
    and "length pre = length c" by (rule upsert_all_prefix)
  then show ?thesis by simp
qed

lemma upsert_all_prefix_names:
  "map name (take (length c) (upsert_all c xs)) = map name c"
proof -
  obtain pre where "upsert_all c xs =
      pre @ upsert_all [] (filter (\<lambda>x. name x \<notin> set (map name c)) xs)"
    and "map name pre = map name c" and "length pre = length c" by (rule upsert_all_prefix)
  then show ?thesis by simp
qed

lemma upsert_all_appended:
  "drop (length c) (upsert_all c xs) =
     upsert_all [] (filter (\<lambda>x. name x \<notin> set (map name c)) xs)"
proof -
  obtain pre where "upsert_all c xs =
      pre @ upsert_all [] (filter (\<lambda>x. name x \<notin> set (map name c)) xs)"
    and "map name pre = map name c" and "length pre = length c" by (rule upsert_all_prefix)
  then show ?thesis by simp
qed

lemma upsert_all_name_at:
  assumes "i < length c"
  shows "name (upsert_all c xs ! i) = name (c ! i)"
proof -
  have "map name (take (length c) (upsert_all c xs)) ! i = map name c ! i"
    by (simp only: upsert_all_prefix_names)
  then show ?thesis using assms upsert_all_length_ge [of c xs] by simp
qed

lemma upsert_all_fresh:
  "distinct (map name (c @ xs)) \<Longrightarrow> upsert_all c xs = c @ xs"
proof (induction xs rule: rev_induct)
  case Nil
  then show ?case by (simp add: upsert_all_def)
next
  case (snoc x xs)
  then have "upsert_all c xs = c @ xs" by simp
  moreover have "name x \<notin> set (map name (c @ xs))" using snoc.prems by auto
  ultimately show ?case by (simp add: upsert_all_snoc upsert_new)
qed

lemma upsert_all_override:
  assumes "distinct (map name c)" and "i < length c"
  shows "upsert_all c xs ! i =
     (if filter (\<lambda>x. name x = name (c ! i)) xs = [] then c ! i
      else last (filter (\<lambda>x. name x = name (c ! i)) xs))"
proof (induction xs rule: rev_induct)
  case Nil
  then show ?case by (simp add: upsert_all_def)
next
  case (snoc x xs)
  let ?m = "upsert_all c xs"
  have len: "i < length ?m" using assms(2) upsert_all_length_ge [of c xs] by simp
  have nm: "name (?m ! i) = name (c ! i)" using assms(2) by (rule upsert_all_name_at)
  have dist: "distinct (map name ?m)" using assms(1) by (rule upsert_all_distinct)
  show ?case
  proof (cases "name x = name (c ! i)")
    case True
    then have "upsert x ?m ! i = x" using len nm dist by (intro upsert_hit) simp_all
    then show ?thesis using True by (simp add: upsert_all_snoc)
  next
    case False
    then have "upsert x ?m ! i = ?m ! i" using len nm by (intro upsert_other) simp_all
    then show ?thesis using False snoc.IH by (simp add: upsert_all_snoc)
  qed
qed

lemma user_catalog_distinct: "distinct (map name (user_catalog us))"
  by (simp add: user_catalog_def upsert_all_distinct)

lemma user_catalog_names: "set (map name (user_catalog us)) = name ` set us"
  using upsert_all_name_set [of "[]" us] by (simp add: user_catalog_def)

lemma merge_catalog_distinct: "distinct (map name (merge_catalog us ps))"
  by (simp add: merge_catalog_def upsert_all_distinct user_catalog_distinct)


text \<open>
  Claim C2. For all user-tier and project-tier records, the merged catalog has pairwise
  distinct names and keeps, in its first positions, the names of the user tier's catalog in
  their order. A name \<open>n\<close> present in both tiers has exactly one entry: it stands at the
  index of the user tier's entry named \<open>n\<close>, is tagged \<open>Project\<close>, and is the (last)
  project-tier record of that name. A user-tier entry whose name the project tier does not
  have stays as it is. Behind the user tier's positions come the project-tier
  records whose name no user-tier record has: as the ordered map of these records and,
  when the project tier's names are pairwise distinct, each of them in order. When the user
  tier's names are pairwise distinct, its catalog is the list of its records.
\<close>

theorem C2_project_overrides_in_place:
  "distinct (map name (merge_catalog us ps))
 \<and> map name (take (length (user_catalog us)) (merge_catalog us ps)) = map name (user_catalog us)
 \<and> (n \<in> name ` set us \<and> n \<in> name ` set ps \<longrightarrow>
      (\<exists>i < length (user_catalog us).
          name (user_catalog us ! i) = n
        \<and> name (merge_catalog us ps ! i) = n
        \<and> source (merge_catalog us ps ! i) = Project
        \<and> merge_catalog us ps ! i = (last (filter (\<lambda>p. name p = n) ps))\<lparr>source := Project\<rparr>
        \<and> (\<forall>j < length (merge_catalog us ps).
              name (merge_catalog us ps ! j) = n \<longrightarrow> j = i)))
 \<and> (k < length (user_catalog us) \<and> name (user_catalog us ! k) \<notin> name ` set ps \<longrightarrow>
      merge_catalog us ps ! k = user_catalog us ! k)
 \<and> drop (length (user_catalog us)) (merge_catalog us ps) =
       upsert_all [] (map (\<lambda>p. p\<lparr>source := Project\<rparr>)
                        (filter (\<lambda>p. name p \<notin> name ` set us) ps))
 \<and> (distinct (map name ps) \<longrightarrow>
       drop (length (user_catalog us)) (merge_catalog us ps) =
         map (\<lambda>p. p\<lparr>source := Project\<rparr>) (filter (\<lambda>p. name p \<notin> name ` set us) ps))
 \<and> (distinct (map name us) \<longrightarrow> user_catalog us = us)"
proof -
  let ?u = "user_catalog us"
  let ?m = "merge_catalog us ps"
  let ?new = "filter (\<lambda>p. name p \<notin> name ` set us) ps"
  have mark: "mark_project = (\<lambda>p. p\<lparr>source := Project\<rparr>)"
    by (simp add: mark_project_def fun_eq_iff)
  have du: "distinct (map name ?u)" by (rule user_catalog_distinct)
  have dm: "distinct (map name ?m)" by (rule merge_catalog_distinct)
  have pre: "map name (take (length ?u) ?m) = map name ?u"
    by (simp only: merge_catalog_def upsert_all_prefix_names)
  have "filter (\<lambda>x. name x \<notin> set (map name ?u)) (map mark_project ps) = map mark_project ?new"
    by (simp add: user_catalog_names filter_map o_def name_mark_project del: set_map)
  then have tail: "drop (length ?u) ?m = upsert_all [] (map mark_project ?new)"
    using upsert_all_appended [of ?u "map mark_project ps"] by (simp add: merge_catalog_def)
  have tail_distinct: "drop (length ?u) ?m = map mark_project ?new" if "distinct (map name ps)"
  proof -
    have comp: "name \<circ> mark_project = name"
      by (simp add: fun_eq_iff name_mark_project)
    have "distinct (map name ?new)" using that by (rule distinct_map_filter)
    then have "distinct (map name ([] @ map mark_project ?new))" by (simp add: comp)
    then have "upsert_all [] (map mark_project ?new) = [] @ map mark_project ?new"
      by (rule upsert_all_fresh)
    then show ?thesis using tail by simp
  qed
  have user_distinct: "?u = us" if "distinct (map name us)"
    using upsert_all_fresh [of "[]" us] that by (simp add: user_catalog_def)
  have both: "\<exists>i < length ?u. name (?u ! i) = n \<and> name (?m ! i) = n \<and> source (?m ! i) = Project
      \<and> ?m ! i = mark_project (last (filter (\<lambda>p. name p = n) ps))
      \<and> (\<forall>j < length ?m. name (?m ! j) = n \<longrightarrow> j = i)"
    if n: "n \<in> name ` set us" "n \<in> name ` set ps"
  proof -
    from n(1) have "n \<in> set (map name ?u)" by (simp only: user_catalog_names)
    then obtain i where i: "i < length ?u" "name (?u ! i) = n"
      by (auto simp: in_set_conv_nth)
    have ne: "filter (\<lambda>p. name p = n) ps \<noteq> []"
      using n(2) by (auto simp: filter_empty_conv)
    have "filter (\<lambda>x. name x = n) (map mark_project ps) =
        map mark_project (filter (\<lambda>p. name p = n) ps)"
      by (simp add: filter_map o_def name_mark_project)
    then have at: "?m ! i = mark_project (last (filter (\<lambda>p. name p = n) ps))"
      using upsert_all_override [OF du i(1), of "map mark_project ps"] i(2) ne
      by (simp add: merge_catalog_def last_map)
    have len: "i < length ?m"
      using i(1) upsert_all_length_ge [of ?u "map mark_project ps"]
      by (simp add: merge_catalog_def)
    have nm: "name (?m ! i) = n"
      using upsert_all_name_at [OF i(1), of "map mark_project ps"] i(2)
      by (simp add: merge_catalog_def)
    have uniq: "j = i" if j: "j < length ?m" "name (?m ! j) = n" for j
    proof -
      have "map name ?m ! j = map name ?m ! i" using j len nm by simp
      moreover have "j < length (map name ?m)" and "i < length (map name ?m)"
        using j(1) len by simp_all
      ultimately show ?thesis using dm nth_eq_iff_index_eq by blast
    qed
    show ?thesis
      using i at nm uniq by (intro exI [of _ i]) (simp add: mark_project_def)
  qed
  have kept: "?m ! k = ?u ! k"
    if k: "k < length ?u" "name (?u ! k) \<notin> name ` set ps"
  proof -
    have "filter (\<lambda>x. name x = name (?u ! k)) (map mark_project ps) = []"
      using k(2) by (force simp: filter_empty_conv name_mark_project image_iff)
    then show ?thesis
      using upsert_all_override [OF du k(1), of "map mark_project ps"]
      by (simp add: merge_catalog_def)
  qed
  show ?thesis
    using dm pre both kept tail tail_distinct user_distinct unfolding mark by blast
qed

theorem C2_project_overrides_in_place_witness:
  "''A'' \<in> name ` set user_tier \<and> ''A'' \<in> name ` set project_tier
 \<and> distinct (map name user_tier) \<and> distinct (map name project_tier)
 \<and> user_catalog user_tier = user_tier
 \<and> merge_catalog user_tier project_tier =
      [skill ''A'' ''desc A2'' ''/p/A/SKILL.md'' Project,
       skill ''B'' ''desc B'' ''/p/B/SKILL.md'' Project]
 \<and> ''A'' \<in> name ` set (user_tier @ [skill ''A'' ''desc A1'' ''/u/A1/SKILL.md'' User])
 \<and> merge_catalog (user_tier @ [skill ''A'' ''desc A1'' ''/u/A1/SKILL.md'' User]) project_tier =
      [skill ''A'' ''desc A2'' ''/p/A/SKILL.md'' Project,
       skill ''B'' ''desc B'' ''/p/B/SKILL.md'' Project]
 \<and> (1::nat) < length (user_catalog (user_tier @ [skill ''C'' ''desc C'' ''/u/C/SKILL.md'' User]))
 \<and> name (user_catalog (user_tier @ [skill ''C'' ''desc C'' ''/u/C/SKILL.md'' User]) ! 1)
       \<notin> name ` set project_tier
 \<and> merge_catalog (user_tier @ [skill ''C'' ''desc C'' ''/u/C/SKILL.md'' User]) project_tier =
      [skill ''A'' ''desc A2'' ''/p/A/SKILL.md'' Project,
       skill ''C'' ''desc C'' ''/u/C/SKILL.md'' User,
       skill ''B'' ''desc B'' ''/p/B/SKILL.md'' Project]"
proof -
  have u: "''A'' \<in> name ` set user_tier" by (simp add: user_tier_def skill_def)
  have p: "''A'' \<in> name ` set project_tier" by (simp add: project_tier_def skill_def)
  have du: "distinct (map name user_tier)" by (simp add: user_tier_def)
  have dp: "distinct (map name project_tier)" by (simp add: project_tier_def skill_def)
  have u2: "''A'' \<in> name ` set (user_tier @ [skill ''A'' ''desc A1'' ''/u/A1/SKILL.md'' User])"
    by (simp add: skill_def)
  have v: "merge_catalog user_tier project_tier =
      [skill ''A'' ''desc A2'' ''/p/A/SKILL.md'' Project,
       skill ''B'' ''desc B'' ''/p/B/SKILL.md'' Project]"
    by (simp add: merge_catalog_def user_catalog_def upsert_all_def mark_project_def
        user_tier_def project_tier_def skill_def)
  have v2: "merge_catalog (user_tier @ [skill ''A'' ''desc A1'' ''/u/A1/SKILL.md'' User])
        project_tier =
      [skill ''A'' ''desc A2'' ''/p/A/SKILL.md'' Project,
       skill ''B'' ''desc B'' ''/p/B/SKILL.md'' Project]"
    by (simp add: merge_catalog_def user_catalog_def upsert_all_def mark_project_def
        user_tier_def project_tier_def skill_def)
  have c: "user_catalog (user_tier @ [skill ''C'' ''desc C'' ''/u/C/SKILL.md'' User]) =
      [skill ''A'' ''desc A'' ''/u/A/SKILL.md'' User,
       skill ''C'' ''desc C'' ''/u/C/SKILL.md'' User]"
    by (simp add: user_catalog_def upsert_all_def user_tier_def skill_def)
  have k: "(1::nat) < length
      (user_catalog (user_tier @ [skill ''C'' ''desc C'' ''/u/C/SKILL.md'' User]))"
    unfolding c by simp
  have free: "name (user_catalog (user_tier @ [skill ''C'' ''desc C'' ''/u/C/SKILL.md'' User]) ! 1)
      \<notin> name ` set project_tier"
    unfolding c by (simp add: project_tier_def skill_def)
  have v3: "merge_catalog (user_tier @ [skill ''C'' ''desc C'' ''/u/C/SKILL.md'' User])
        project_tier =
      [skill ''A'' ''desc A2'' ''/p/A/SKILL.md'' Project,
       skill ''C'' ''desc C'' ''/u/C/SKILL.md'' User,
       skill ''B'' ''desc B'' ''/p/B/SKILL.md'' Project]"
    by (simp add: merge_catalog_def user_catalog_def upsert_all_def mark_project_def
        user_tier_def project_tier_def skill_def)
  note t = C2_project_overrides_in_place [of user_tier project_tier "''A''" 0]
  note t2 = C2_project_overrides_in_place
    [of "user_tier @ [skill ''A'' ''desc A1'' ''/u/A1/SKILL.md'' User]" project_tier "''A''" 0]
  note t3 = C2_project_overrides_in_place
    [of "user_tier @ [skill ''C'' ''desc C'' ''/u/C/SKILL.md'' User]" project_tier "''A''" 1]
  have uc: "user_catalog user_tier = user_tier" using t du by blast
  show ?thesis using t2 t3 u p du dp uc v u2 v2 k free v3 by blast
qed

section \<open>Properties of the skills injection middleware\<close>

lemma append_skill_lines_eq:
  "append_skill_lines lines skills =
     lines @ concat (map (\<lambda>s. [name_line s, path_line s]) skills)"
  by (induction skills arbitrary: lines) simp_all

lemma wrap_model_call_eq:
  "wrap_model_call self request handler =
     (self\<lparr>call_count := call_count self + 1\<rparr>,
      handler (request\<lparr>system_prompt := Some (outgoing_system_prompt self request)\<rparr>))"
  by (simp add: wrap_model_call_def Let_def)

lemma skills_section_cong:
  assumes "skills_metadata (state r1) = skills_metadata (state r2)"
    and "user_skills_display s1 = user_skills_display s2"
    and "project_skills_dir s1 = project_skills_dir s2"
    and "system_prompt_template s1 = system_prompt_template s2"
  shows "skills_section s1 r1 = skills_section s2 r2"
proof -
  have "format_skills_locations s1 = format_skills_locations s2"
    using assms(2,3) by (simp add: format_skills_locations_def)
  moreover have "format_skills_list s1 catalog = format_skills_list s2 catalog" for catalog
    using assms(2,3) by (simp add: format_skills_list_def)
  ultimately show ?thesis
    using assms(1,4) by (simp add: skills_section_def)
qed

lemma skills_section_standard:
  assumes "system_prompt_template self = SKILLS_SYSTEM_PROMPT"
  shows "skills_section self request =
           template_head @ format_skills_locations self @ template_middle
           @ format_skills_list self
               (case skills_metadata (state request) of None \<Rightarrow> [] | Some skills \<Rightarrow> skills)
           @ template_tail"
  using assms by (simp add: skills_section_def SKILLS_SYSTEM_PROMPT_def Let_def)

lemma template_head_nonempty: "template_head \<noteq> []"
  by (simp add: template_head_def)

text \<open>
  Claim C3. When the request's system prompt is set and non-empty, the handler receives the
  request with its system prompt replaced by the original prompt, then a blank line
  (two newlines), then the rendered skills section; the original prompt is a prefix of
  the new one and every other field of the request is as it was.
\<close>

theorem C3_prompt_appended:
  assumes "system_prompt request = Some p" and "p \<noteq> []"
  shows "wrap_model_call self request handler =
           (self\<lparr>call_count := call_count self + 1\<rparr>,
            handler (request\<lparr>system_prompt :=
               Some (p @ ''\<newline>\<newline>'' @ skills_section self request)\<rparr>))
       \<and> prefix p (outgoing_system_prompt self request)"
  using assms by (simp add: wrap_model_call_eq outgoing_system_prompt_def)

theorem C3_prompt_appended_witness:
  "system_prompt (request_with (Some ''Be brief.'') None) = Some ''Be brief.''
 \<and> ''Be brief.'' \<noteq> []
 \<and> system_prompt (snd (wrap_model_call bootstrap_middleware
        (request_with (Some ''Be brief.'') None) id))
    = Some (''Be brief.'' @ ''\<newline>\<newline>''
            @ skills_section bootstrap_middleware (request_with (Some ''Be brief.'') None))"
proof -
  have set: "system_prompt (request_with (Some ''Be brief.'') None) = Some ''Be brief.''"
    by (simp add: request_with_def)
  have ne: "''Be brief.'' \<noteq> []" by simp
  from C3_prompt_appended [OF set ne, of bootstrap_middleware id] set
  show ?thesis by simp
qed

text \<open>
  Claim C9. When the request's system prompt is unset or the empty string, the handler
  receives the request with the rendered skills section as its system prompt, nothing
  put before it.
\<close>

theorem C9_prompt_unset:
  assumes "system_prompt request = None \<or> system_prompt request = Some []"
  shows "wrap_model_call self request handler =
           (self\<lparr>call_count := call_count self + 1\<rparr>,
            handler (request\<lparr>system_prompt := Some (skills_section self request)\<rparr>))"
  using assms by (auto simp: wrap_model_call_eq outgoing_system_prompt_def)

theorem C9_prompt_unset_witness:
  "system_prompt (request_with None None) = None
 \<and> system_prompt (request_with (Some []) None) = Some []
 \<and> system_prompt (snd (wrap_model_call bootstrap_middleware (request_with None None) id))
    = Some (skills_section bootstrap_middleware (request_with None None))
 \<and> system_prompt (snd (wrap_model_call bootstrap_middleware (request_with (Some []) None) id))
    = Some (skills_section bootstrap_middleware (request_with (Some []) None))"
proof -
  have unset: "system_prompt (request_with None None) = None"
    and empty: "system_prompt (request_with (Some []) None) = Some []"
    by (simp_all add: request_with_def)
  from C9_prompt_unset [of "request_with None None" bootstrap_middleware id]
    C9_prompt_unset [of "request_with (Some []) None" bootstrap_middleware id]
    unset empty
  show ?thesis by simp
qed

text \<open>
  Claim C4. Two calls of the hook, on instances that agree on the display location, the
  project directory and the template, with requests that agree on the cached catalog and
  on the incoming system prompt, render the same skills section and hand the same system
  prompt to the handler, whatever the call counters, the agent names, the messages and the
  rest of the requests are. A call changes nothing of the instance but its call counter,
  so a second call on the same instance renders what the first did.
\<close>

theorem C4_rendering_deterministic:
  assumes "skills_metadata (state r1) = skills_metadata (state r2)"
    and "system_prompt r1 = system_prompt r2"
    and "user_skills_display s1 = user_skills_display s2"
    and "project_skills_dir s1 = project_skills_dir s2"
    and "system_prompt_template s1 = system_prompt_template s2"
  shows "skills_section s1 r1 = skills_section s2 r2
       \<and> system_prompt (snd (wrap_model_call s1 r1 id))
           = system_prompt (snd (wrap_model_call s2 r2 id))
       \<and> fst (wrap_model_call s1 r1 handler) = s1\<lparr>call_count := call_count s1 + 1\<rparr>
       \<and> system_prompt (snd (wrap_model_call (fst (wrap_model_call s1 r1 handler)) r2 id))
           = system_prompt (snd (wrap_model_call s1 r1 id))"
proof -
  have a: "skills_section s1 r1 = skills_section s2 r2"
    using assms by (intro skills_section_cong)
  have b: "skills_section (s1\<lparr>call_count := call_count s1 + 1\<rparr>) r2 = skills_section s1 r1"
    using assms by (intro skills_section_cong) simp_all
  show ?thesis
    using a b assms(2)
    by (simp add: wrap_model_call_eq outgoing_system_prompt_def split: option.split)
qed

theorem C4_rendering_deterministic_witness:
  "skills_metadata (state (request_with (Some ''Be brief.'') (Some user_tier)))
     = skills_metadata (state ((request_with (Some ''Be brief.'') (Some user_tier))
         \<lparr>request_messages := [ai_message ''earlier'' []]\<rparr>))
 \<and> system_prompt (snd (wrap_model_call bootstrap_middleware
        (request_with (Some ''Be brief.'') (Some user_tier)) id))
   = system_prompt (snd (wrap_model_call
        (bootstrap_middleware\<lparr>agent_name := ''other'', call_count := 7\<rparr>)
        ((request_with (Some ''Be brief.'') (Some user_tier))
           \<lparr>request_messages := [ai_message ''earlier'' []]\<rparr>) id))"
proof -
  let ?r1 = "request_with (Some ''Be brief.'') (Some user_tier)"
  let ?r2 = "?r1\<lparr>request_messages := [ai_message ''earlier'' []]\<rparr>"
  let ?s2 = "bootstrap_middleware\<lparr>agent_name := ''other'', call_count := 7\<rparr>"
  have h1: "skills_metadata (state ?r1) = skills_metadata (state ?r2)" by simp
  have h2: "system_prompt ?r1 = system_prompt ?r2" by simp
  have h3: "user_skills_display bootstrap_middleware = user_skills_display ?s2" by simp
  have h4: "project_skills_dir bootstrap_middleware = project_skills_dir ?s2" by simp
  have h5: "system_prompt_template bootstrap_middleware = system_prompt_template ?s2" by simp
  from C4_rendering_deterministic [OF h1 h2 h3 h4 h5, of id] h1 show ?thesis by simp
qed

text \<open>
  Claim C8. For a non-empty catalog the rendered list is the lines below joined by
  newlines: if the catalog has user entries, the label \<open>**User Skills:**\<close>, two lines for
  each user entry in catalog order and an empty line; then, if it has project entries, the
  label \<open>**Project Skills:**\<close> and two lines for each project entry in catalog order. The
  two lines of an entry show its name and description, and its path.
\<close>

theorem C8_grouped_rendering:
  assumes "skills \<noteq> []"
  shows "format_skills_list self skills =
     str_join ''\<newline>''
       ((if filter (\<lambda>s. source s = User) skills \<noteq> []
         then [''**User Skills:**'']
              @ concat (map (\<lambda>s. [''- **'' @ name s @ ''**: '' @ description s,
                                   ''  '' @ rightwards_arrow @ '' Read `'' @ path s
                                     @ ''` for full instructions''])
                          (filter (\<lambda>s. source s = User) skills))
              @ [[]]
         else [])
        @ (if filter (\<lambda>s. source s = Project) skills \<noteq> []
           then [''**Project Skills:**'']
                @ concat (map (\<lambda>s. [''- **'' @ name s @ ''**: '' @ description s,
                                     ''  '' @ rightwards_arrow @ '' Read `'' @ path s
                                       @ ''` for full instructions''])
                            (filter (\<lambda>s. source s = Project) skills))
           else []))"
  using assms
  by (simp add: format_skills_list_def append_skill_lines_eq name_line_def path_line_def
      Let_def)

theorem C8_grouped_rendering_witness:
  "project_tier @ user_tier \<noteq> []
 \<and> format_skills_list bootstrap_middleware (project_tier @ user_tier) =
     str_join ''\<newline>''
       [''**User Skills:**'',
        ''- **A**: desc A'',
        ''  '' @ rightwards_arrow @ '' Read `/u/A/SKILL.md` for full instructions'',
        [],
        ''**Project Skills:**'',
        ''- **A**: desc A2'',
        ''  '' @ rightwards_arrow @ '' Read `/p/A/SKILL.md` for full instructions'',
        ''- **B**: desc B'',
        ''  '' @ rightwards_arrow @ '' Read `/p/B/SKILL.md` for full instructions'']"
proof -
  have ne: "project_tier @ user_tier \<noteq> []" by (simp add: user_tier_def)
  from C8_grouped_rendering [OF ne, of bootstrap_middleware] ne
  show ?thesis by (simp add: user_tier_def project_tier_def skill_def)
qed

lemma standard_template:
  "system_prompt_template ((SkillsMiddleware_init expanduser sdir aid pdir nm)\<lparr>call_count := c\<rparr>)
     = SKILLS_SYSTEM_PROMPT"
  by (simp add: SkillsMiddleware_init_def)

lemma empty_catalog_list:
  "format_skills_list self [] =
     ''(No skills available yet. You can create skills in '' @ user_skills_display self @ ''/''
     @ (case project_skills_dir self of None \<Rightarrow> [] | Some q \<Rightarrow> '' or '' @ q @ ''/'') @ '')''"
  by (simp add: format_skills_list_def split: option.split)

text \<open>
  Claim C7, as stated, fails: a middleware configured with the user skills directory
  \<open>/home/jo/extractor/agent/skills\<close> and the assistant id \<open>agent\<close> renders, for a state
  without the catalog key, a block in which that directory does not occur.
\<close>

theorem C7_configured_directory_not_named:
  "skills_dir bootstrap_middleware = ''/home/jo/extractor/agent/skills''
 \<and> \<not> sublist (skills_dir bootstrap_middleware)
       (skills_section bootstrap_middleware (request_with None None))"
proof -
  have dir: "skills_dir bootstrap_middleware = ''/home/jo/extractor/agent/skills''"
    by (simp add: bootstrap_middleware_def SkillsMiddleware_init_def)
  have tpl: "system_prompt_template bootstrap_middleware = SKILLS_SYSTEM_PROMPT"
    by (simp add: bootstrap_middleware_def SkillsMiddleware_init_def)
  have cat: "skills_metadata (state (request_with None None)) = None"
    by (simp add: request_with_def)
  have disp: "user_skills_display bootstrap_middleware = ''~/.deepagents/agent/skills''"
    and proj: "project_skills_dir bootstrap_middleware = None"
    by (simp_all add: bootstrap_middleware_def SkillsMiddleware_init_def)
  have "skills_section bootstrap_middleware (request_with None None) =
      template_head @ (''**User Skills**: `~/.deepagents/agent/skills`'') @ template_middle
      @ ''(No skills available yet. You can create skills in ~/.deepagents/agent/skills/)''
      @ template_tail"
    by (simp add: skills_section_standard [OF tpl] cat empty_catalog_list
        format_skills_locations_def disp proj)
  then have "CHR ''j'' \<notin> set (skills_section bootstrap_middleware (request_with None None))"
    by (simp add: template_head_def template_middle_def template_tail_def
        rightwards_arrow_def)
  moreover have "CHR ''j'' \<in> set (skills_dir bootstrap_middleware)"
    by (simp add: dir)
  ultimately have "\<not> set (skills_dir bootstrap_middleware)
      \<subseteq> set (skills_section bootstrap_middleware (request_with None None))"
    by blast
  then show ?thesis using dir set_mono_sublist by blast
qed

text \<open>
  Claim C7, amended. For an instance as \<open>__init__\<close> builds it (after any number of calls)
  and a request whose state lacks the catalog key or holds the empty catalog, the rendered
  block is not empty and is the template filled with the locations and the no-skills
  sentence. That sentence names the display location \<open>~/.deepagents/{assistant_id}/skills\<close>,
  which is built from the assistant id and not from the configured user directory, and,
  when a project directory is configured, that directory.
\<close>

theorem C7_empty_catalog_block:
  fixes expanduser sdir aid pdir nm c
  defines "self \<equiv> (SkillsMiddleware_init expanduser sdir aid pdir nm)\<lparr>call_count := c\<rparr>"
  assumes "skills_metadata (state request) = None \<or> skills_metadata (state request) = Some []"
  shows "skills_section self request \<noteq> []
       \<and> skills_section self request =
           template_head @ format_skills_locations self @ template_middle
           @ format_skills_list self [] @ template_tail
       \<and> format_skills_list self [] =
           ''(No skills available yet. You can create skills in ''
           @ ''~/.deepagents/'' @ aid @ ''/skills'' @ ''/''
           @ (case project_skills_dir self of None \<Rightarrow> [] | Some q \<Rightarrow> '' or '' @ q @ ''/'')
           @ '')''
       \<and> sublist (''~/.deepagents/'' @ aid @ ''/skills'') (skills_section self request)
       \<and> (\<forall>q. project_skills_dir self = Some q \<longrightarrow> sublist q (skills_section self request))"
proof -
  have tpl: "system_prompt_template self = SKILLS_SYSTEM_PROMPT"
    unfolding self_def by (rule standard_template)
  have disp: "user_skills_display self = ''~/.deepagents/'' @ aid @ ''/skills''"
    unfolding self_def by (simp add: SkillsMiddleware_init_def)
  have cat: "(case skills_metadata (state request) of None \<Rightarrow> [] | Some skills \<Rightarrow> skills) = []"
    using assms(2) by auto
  have sec: "skills_section self request =
      template_head @ format_skills_locations self @ template_middle
      @ format_skills_list self [] @ template_tail"
    using skills_section_standard [OF tpl, of request] cat by simp
  have lst: "format_skills_list self [] =
      ''(No skills available yet. You can create skills in ''
      @ ''~/.deepagents/'' @ aid @ ''/skills'' @ ''/''
      @ (case project_skills_dir self of None \<Rightarrow> [] | Some q \<Rightarrow> '' or '' @ q @ ''/'')
      @ '')''"
    using empty_catalog_list [of self] disp by simp
  have ne: "skills_section self request \<noteq> []"
    using sec template_head_nonempty by simp
  have in_list: "sublist (format_skills_list self []) (skills_section self request)"
    unfolding sec
    by (metis append.assoc sublist_appendI)
  have "sublist (''~/.deepagents/'' @ aid @ ''/skills'') (format_skills_list self [])"
    unfolding lst by (metis append.assoc sublist_appendI)
  then have user: "sublist (''~/.deepagents/'' @ aid @ ''/skills'') (skills_section self request)"
    using in_list sublist_order.order_trans by blast
  have proj: "sublist q (skills_section self request)" if "project_skills_dir self = Some q" for q
  proof -
    have "format_skills_list self [] =
        (''(No skills available yet. You can create skills in ''
         @ ''~/.deepagents/'' @ aid @ ''/skills'' @ ''/'' @ '' or '') @ q @ (''/'' @ '')'')"
      using lst that by simp
    then have "sublist q (format_skills_list self [])"
      by (metis sublist_appendI)
    then show ?thesis using in_list sublist_order.order_trans by blast
  qed
  show ?thesis using ne sec lst user proj by blast
qed

theorem C7_empty_catalog_block_witness:
  "(skills_metadata (state (request_with None None)) = None
      \<or> skills_metadata (state (request_with None None)) = Some [])
 \<and> project_skills_dir project_middleware = Some ''/work/.deepagents/skills''
 \<and> format_skills_list project_middleware [] =
      ''(No skills available yet. You can create skills in ~/.deepagents/agent/skills/ or /work/.deepagents/skills/)''
 \<and> skills_section project_middleware (request_with None None) \<noteq> []
 \<and> sublist ''~/.deepagents/agent/skills''
      (skills_section project_middleware (request_with None None))
 \<and> sublist ''/work/.deepagents/skills''
      (skills_section project_middleware (request_with None None))"
proof -
  have missing: "skills_metadata (state (request_with None None)) = None
      \<or> skills_metadata (state (request_with None None)) = Some []"
    by (simp add: request_with_def)
  have inst: "project_middleware =
      (SkillsMiddleware_init id ''/home/jo/.deepagents/agent/skills'' ''agent''
         (Some ''/work/.deepagents/skills'') ''agent'')\<lparr>call_count := 0\<rparr>"
    by (simp add: project_middleware_def SkillsMiddleware_init_def)
  have proj: "project_skills_dir project_middleware = Some ''/work/.deepagents/skills''"
    by (simp add: project_middleware_def SkillsMiddleware_init_def)
  note t = C7_empty_catalog_block [OF missing, where expanduser = id
      and sdir = "''/home/jo/.deepagents/agent/skills''" and aid = "''agent''"
      and pdir = "Some ''/work/.deepagents/skills''" and nm = "''agent''" and c = 0,
      folded inst, simplified proj, simplified]
  show ?thesis using t missing proj by blast
qed

end
